theory Spec2Isabelle
  imports Complex_Main
begin

section \<open>DiaWell: the form-to-verdict pipeline of \<^verbatim>\<open>app.py\<close>\<close>

text \<open>
  The development embeds the route \<^verbatim>\<open>predict\<close> of \<^verbatim>\<open>app.py\<close> together with its helpers
  \<^verbatim>\<open>to_number\<close> and \<^verbatim>\<open>clamp\<close> and the tables \<^verbatim>\<open>RANGES\<close> and \<^verbatim>\<open>DEFAULTS\<close>.

  \<^item> A Python number is an \<open>int\<close> (unbounded) or a \<open>float\<close>; \<open>None\<close> is the \<open>None\<close> of
    \<open>pynum option\<close>.
  \<^item> A float is the rational it denotes, or one of \<open>inf\<close>, \<open>-inf\<close>, \<open>nan\<close>. Comparison of
    floats is then comparison of rationals, with every comparison against \<open>nan\<close> false.
    Signed zero is one value (both zeros are falsy and compare equal).
  \<^item> An exception is a value: every function that can raise returns \<open>pyexn + 'a\<close>.
  \<^item> The builtins \<^verbatim>\<open>int\<close>, \<^verbatim>\<open>float\<close> and \<^verbatim>\<open>round\<close> and the unpickled classifier are
    not code of the repository; they are parameters of the model.
  \<^item> The table \<^verbatim>\<open>patients\<close> is the list of the tuples inserted so far.
\<close>

subsection \<open>Python values\<close>

datatype pyfloat = Finite rat | PInf | NInf | NaN

datatype pynum = IntV int | FloatV pyfloat

datatype pyexn =
    KeyError string
  | IndexError string
  | TypeError string
  | Raised string

text \<open>\<^verbatim>\<open>str(e)\<close>: the text an exception carries.\<close>

fun exn_str :: "pyexn \<Rightarrow> string" where
  "exn_str (KeyError s) = s"
| "exn_str (IndexError s) = s"
| "exn_str (TypeError s) = s"
| "exn_str (Raised s) = s"

text \<open>Sequencing of statements that may raise: the first exception ends the run.\<close>

definition and_then :: "pyexn + 'a \<Rightarrow> ('a \<Rightarrow> pyexn + 'b) \<Rightarrow> pyexn + 'b" where
  "and_then m f = (case m of Inl e \<Rightarrow> Inl e | Inr x \<Rightarrow> f x)"

text \<open>\<^verbatim>\<open>a < b\<close> on floats.\<close>

fun float_lt :: "pyfloat \<Rightarrow> pyfloat \<Rightarrow> bool" where
  "float_lt NaN _ = False"
| "float_lt _ NaN = False"
| "float_lt (Finite a) (Finite b) = (a < b)"
| "float_lt (Finite a) PInf = True"
| "float_lt (Finite a) NInf = False"
| "float_lt PInf _ = False"
| "float_lt NInf NInf = False"
| "float_lt NInf _ = True"

text \<open>
  The value of a number as a float. Python compares an int with a float by value, which
  is what comparing the images does. As a conversion (\<^verbatim>\<open>dtype=float\<close>) it is exact for
  the ints of magnitude at most \<open>2 ^ 53\<close>; larger ints never reach the conversion, every
  int that does has been clamped to at most 900.
\<close>

fun exact :: "pynum \<Rightarrow> pyfloat" where
  "exact (IntV i) = Finite (of_int i)"
| "exact (FloatV x) = x"

definition num_lt :: "pynum \<Rightarrow> pynum \<Rightarrow> bool" where
  "num_lt a b = float_lt (exact a) (exact b)"

text \<open>
  \<^verbatim>\<open>min(a, b)\<close> and \<^verbatim>\<open>max(a, b)\<close> of two arguments: the first argument is kept unless the
  second is strictly smaller (strictly larger).
\<close>

definition py_min :: "pynum \<Rightarrow> pynum \<Rightarrow> pynum" where
  "py_min a b = (if num_lt b a then b else a)"

definition py_max :: "pynum \<Rightarrow> pynum \<Rightarrow> pynum" where
  "py_max a b = (if num_lt a b then b else a)"

text \<open>Truth value of \<open>None\<close> or a number: \<open>None\<close>, \<open>0\<close> and \<open>0.0\<close> are falsy, \<open>nan\<close> is not.\<close>

fun is_zero :: "pynum \<Rightarrow> bool" where
  "is_zero (IntV i) = (i = 0)"
| "is_zero (FloatV (Finite q)) = (q = 0)"
| "is_zero (FloatV _) = False"

fun truthy :: "pynum option \<Rightarrow> bool" where
  "truthy None = False"
| "truthy (Some v) = (\<not> is_zero v)"

text \<open>
  \<^verbatim>\<open>d[k]\<close> on a dict and \<^verbatim>\<open>xs[i]\<close> on a sequence, for \<open>i \<ge> 0\<close>. The text of the
  \<open>IndexError\<close> is the container's own; one text stands for it here.
\<close>

definition getitem :: "(string \<rightharpoonup> 'v) \<Rightarrow> string \<Rightarrow> pyexn + 'v" where
  "getitem d k = (case d k of None \<Rightarrow> Inl (KeyError k) | Some v \<Rightarrow> Inr v)"

definition getindex :: "'a list \<Rightarrow> nat \<Rightarrow> pyexn + 'a" where
  "getindex xs i = (if i < length xs then Inr (xs ! i) else Inl (IndexError ''index out of range''))"

text \<open>\<^verbatim>\<open>sep.join(xs)\<close>.\<close>

fun join :: "string \<Rightarrow> string list \<Rightarrow> string" where
  "join sep [] = []"
| "join sep [x] = x"
| "join sep (x # y # ys) = x @ sep @ join sep (y # ys)"

subsection \<open>The tables\<close>

definition RANGES :: "string \<rightharpoonup> pynum \<times> pynum" where
  "RANGES = map_of
     [(''pregnancies'', (IntV 0, IntV 20)),
      (''age'', (IntV 1, IntV 120)),
      (''glucose'', (IntV 20, IntV 500)),
      (''bloodpressure'', (IntV 20, IntV 200)),
      (''skinthickness'', (IntV 5, IntV 100)),
      (''insulin'', (IntV 0, IntV 900)),
      (''bmi'', (FloatV (Finite 10), FloatV (Finite 70))),
      (''dpf'', (FloatV (Finite 0), FloatV (Finite 3)))]"

text \<open>The literal \<^verbatim>\<open>0.2\<close> is the double nearest to one fifth.\<close>

definition float_0_2 :: pyfloat where
  "float_0_2 = Finite (3602879701896397 / 18014398509481984)"

definition DEFAULTS :: "string \<rightharpoonup> pynum" where
  "DEFAULTS = map_of
     [(''pregnancies'', IntV 0),
      (''skinthickness'', IntV 10),
      (''dpf'', FloatV float_0_2)]"

subsection \<open>\<^verbatim>\<open>to_number\<close> and \<^verbatim>\<open>clamp\<close>\<close>

text \<open>
  \<^verbatim>\<open>val\<close> is what \<^verbatim>\<open>request.form.get\<close> returns, a string or \<open>None\<close>. \<^verbatim>\<open>cast\<close> returns
  \<open>None\<close> where the Python cast raises: the bare \<^verbatim>\<open>except\<close> catches whatever it raises.
\<close>

definition to_number :: "string option \<Rightarrow> (string \<Rightarrow> pynum option) \<Rightarrow> pynum option \<Rightarrow> pynum option" where
  "to_number val cast dflt =
     (if val = Some [] \<or> val = None then dflt
      else (case cast (the val) of Some n \<Rightarrow> Some n | None \<Rightarrow> dflt))"

definition clamp :: "string \<Rightarrow> pynum option \<Rightarrow> pyexn + pynum option" where
  "clamp name val =
     (case val of
        None \<Rightarrow> Inr val
      | Some v \<Rightarrow>
          and_then (getitem RANGES name) (\<lambda>(lo, hi). Inr (Some (py_max lo (py_min hi v)))))"

subsection \<open>The route \<^verbatim>\<open>predict\<close>\<close>

type_synonym form = "string \<rightharpoonup> string"

record builtins =
  py_int :: "string \<Rightarrow> pynum option"
  py_float :: "string \<Rightarrow> pynum option"
  py_round :: "pyfloat \<Rightarrow> nat \<Rightarrow> pyfloat"

text \<open>
  The classifier: both methods take the array of rows and either raise or return one
  entry per row. \<^verbatim>\<open>model.py\<close> fits it to the integer column \<^verbatim>\<open>Outcome\<close>, so the classes it
  predicts are ints and \<^verbatim>\<open>int(...)\<close> of one is that int; a probability is a float and
  \<^verbatim>\<open>float(...)\<close> of one is that float.
\<close>

record classifier =
  model_predict_proba :: "pyfloat list list \<Rightarrow> pyexn + pyfloat list list"
  model_predict :: "pyfloat list list \<Rightarrow> pyexn + int list"

text \<open>The local variables of \<^verbatim>\<open>predict\<close>.\<close>

record locals =
  name :: string
  age :: "pynum option"
  glucose :: "pynum option"
  bloodpressure :: "pynum option"
  insulin :: "pynum option"
  bmi :: "pynum option"
  pregnancies :: "pynum option"
  skinthickness :: "pynum option"
  dpf :: "pynum option"

text \<open>Lines 77 to 87: reading the form.\<close>

definition read_form :: "builtins \<Rightarrow> form \<Rightarrow> pyexn + locals" where
  "read_form b form =
     and_then (getitem DEFAULTS ''pregnancies'') (\<lambda>d1.
     and_then (getitem DEFAULTS ''skinthickness'') (\<lambda>d2.
     and_then (getitem DEFAULTS ''dpf'') (\<lambda>d3.
     Inr \<lparr> name = (case form ''name'' of None \<Rightarrow> ''Unknown'' | Some s \<Rightarrow> s),
           age = to_number (form ''age'') (py_int b) None,
           glucose = to_number (form ''glucose'') (py_int b) None,
           bloodpressure = to_number (form ''bloodpressure'') (py_int b) None,
           insulin = to_number (form ''insulin'') (py_int b) None,
           bmi = to_number (form ''bmi'') (py_float b) None,
           pregnancies = to_number (form ''pregnancies'') (py_int b) (Some d1),
           skinthickness = to_number (form ''skinthickness'') (py_int b) (Some d2),
           dpf = to_number (form ''dpf'') (py_float b) (Some d3) \<rparr>)))"

text \<open>Lines 90 and 91: the dict \<^verbatim>\<open>required\<close>, in insertion order, and the comprehension.\<close>

definition required :: "locals \<Rightarrow> (string \<times> pynum option) list" where
  "required f =
     [(''age'', age f), (''glucose'', glucose f), (''bloodpressure'', bloodpressure f),
      (''insulin'', insulin f), (''bmi'', bmi f)]"

definition missing :: "locals \<Rightarrow> string list" where
  "missing f = map fst (filter (\<lambda>(k, v). v = None) (required f))"

text \<open>\<^verbatim>\<open>v or DEFAULTS[k]\<close>: the table is read only when \<^verbatim>\<open>v\<close> is falsy.\<close>

definition or_default :: "pynum option \<Rightarrow> string \<Rightarrow> pyexn + pynum option" where
  "or_default v k = (if truthy v then Inr v else and_then (getitem DEFAULTS k) (\<lambda>d. Inr (Some d)))"

text \<open>Lines 96 to 103: the eight assignments, in the order of the source.\<close>

definition clamp_fields :: "locals \<Rightarrow> pyexn + locals" where
  "clamp_fields f =
     and_then (or_default (pregnancies f) ''pregnancies'') (\<lambda>p0.
     and_then (clamp ''pregnancies'' p0) (\<lambda>p.
     and_then (clamp ''age'' (age f)) (\<lambda>a.
     and_then (clamp ''glucose'' (glucose f)) (\<lambda>g.
     and_then (clamp ''bloodpressure'' (bloodpressure f)) (\<lambda>bp.
     and_then (or_default (skinthickness f) ''skinthickness'') (\<lambda>s0.
     and_then (clamp ''skinthickness'' s0) (\<lambda>s.
     and_then (clamp ''insulin'' (insulin f)) (\<lambda>i.
     and_then (clamp ''bmi'' (bmi f)) (\<lambda>bm.
     and_then (or_default (dpf f) ''dpf'') (\<lambda>d0.
     and_then (clamp ''dpf'' d0) (\<lambda>d.
     Inr (f\<lparr> pregnancies := p, age := a, glucose := g, bloodpressure := bp,
              skinthickness := s, insulin := i, bmi := bm, dpf := d \<rparr>))))))))))))"

text \<open>
  Line 106: \<^verbatim>\<open>np.array([[...]], dtype=float)\<close>, one row of eight floats. \<open>None\<close> has no
  float value.
\<close>

definition as_float :: "pynum option \<Rightarrow> pyexn + pyfloat" where
  "as_float v = (case v of None \<Rightarrow> Inl (TypeError ''float() argument must be a number'')
                 | Some n \<Rightarrow> Inr (exact n))"

fun collect :: "(pyexn + 'a) list \<Rightarrow> pyexn + 'a list" where
  "collect [] = Inr []"
| "collect (m # ms) = and_then m (\<lambda>x. and_then (collect ms) (\<lambda>xs. Inr (x # xs)))"

definition feature_array :: "locals \<Rightarrow> pyexn + pyfloat list list" where
  "feature_array c =
     and_then (collect (map as_float
         [pregnancies c, glucose c, bloodpressure c, skinthickness c,
          insulin c, bmi c, dpf c, age c])) (\<lambda>row. Inr [row])"

text \<open>
  Lines 77 to 106 together: either the list \<^verbatim>\<open>missing\<close> is not empty, or the clamped
  variables and the array \<^verbatim>\<open>features\<close> are there.
\<close>

datatype normalized = Missing "string list" | Ready locals "pyfloat list list"

definition normalize_form :: "builtins \<Rightarrow> form \<Rightarrow> pyexn + normalized" where
  "normalize_form b form =
     and_then (read_form b form) (\<lambda>f.
       if missing f \<noteq> [] then Inr (Missing (missing f))
       else and_then (clamp_fields f) (\<lambda>c.
            and_then (feature_array c) (\<lambda>features. Inr (Ready c features))))"

text \<open>Lines 110 to 112, the body of the \<^verbatim>\<open>try\<close>: \<^verbatim>\<open>prob_pos\<close> and \<^verbatim>\<open>pred\<close>.\<close>

definition score :: "classifier \<Rightarrow> pyfloat list list \<Rightarrow> pyexn + pyfloat \<times> int" where
  "score m features =
     and_then (model_predict_proba m features) (\<lambda>P.
     and_then (getindex P 0) (\<lambda>probs.
     and_then (getindex probs 1) (\<lambda>prob_pos.
     and_then (model_predict m features) (\<lambda>Y.
     and_then (getindex Y 0) (\<lambda>pred. Inr (prob_pos, pred))))))"

text \<open>Line 116.\<close>

definition result_of :: "int \<Rightarrow> string" where
  "result_of pred = (if pred = 1 then ''Diabetes Risk'' else ''No Risk'')"

text \<open>The tuple of line 124, one row of the table \<^verbatim>\<open>patients\<close>.\<close>

type_synonym patient =
  "string \<times> pynum option \<times> pynum option \<times> pynum option \<times> pynum option \<times> pynum option
     \<times> pynum option \<times> pynum option \<times> pynum option \<times> pyfloat \<times> string"

definition patient_row :: "locals \<Rightarrow> pyfloat \<Rightarrow> string \<Rightarrow> patient" where
  "patient_row c prob_pos result =
     (name c, age c, pregnancies c, glucose c, bloodpressure c, skinthickness c,
      insulin c, bmi c, dpf c, prob_pos, result)"

text \<open>
  What the route returns: a text with a status, or the template \<^verbatim>\<open>result.html\<close> with its
  arguments \<^verbatim>\<open>name\<close>, \<^verbatim>\<open>result\<close>, \<^verbatim>\<open>probability\<close> and \<^verbatim>\<open>inputs\<close>.
\<close>

datatype response =
    Plain string nat
  | ResultPage string string pyfloat "(string \<times> pynum option) list"

definition inputs_of :: "locals \<Rightarrow> (string \<times> pynum option) list" where
  "inputs_of c =
     [(''pregnancies'', pregnancies c), (''age'', age c), (''glucose'', glucose c),
      (''bloodpressure'', bloodpressure c), (''skinthickness'', skinthickness c),
      (''insulin'', insulin c), (''bmi'', bmi c), (''dpf'', dpf c)]"

text \<open>
  The route, on the table as it is before the request. \<open>Inl\<close> is an exception that leaves
  the function; the two early returns and the rendered page are \<open>Inr\<close>.
\<close>

definition predict ::
  "builtins \<Rightarrow> classifier \<Rightarrow> form \<Rightarrow> patient list \<Rightarrow> (pyexn + response) \<times> patient list" where
  "predict b m form db =
     (case normalize_form b form of
        Inl e \<Rightarrow> (Inl e, db)
      | Inr (Missing ms) \<Rightarrow>
          (Inr (Plain (''Missing or invalid fields: '' @ join '', '' ms
                        @ ''. Please provide valid numeric values.'') 400), db)
      | Inr (Ready c features) \<Rightarrow>
          (case score m features of
             Inl e \<Rightarrow> (Inr (Plain (''Model prediction error: '' @ exn_str e) 500), db)
           | Inr (prob_pos, pred) \<Rightarrow>
               (let result = result_of pred
                in (Inr (ResultPage (name c) result (py_round b prob_pos 4) (inputs_of c)),
                    db @ [patient_row c prob_pos result]))))"

subsection \<open>The conditions the properties speak of\<close>

text \<open>
  A submitted value is unusable for a cast when the field is absent from the form, when it
  is the empty string, or when the cast rejects it.
\<close>

definition unusable :: "(string \<Rightarrow> pynum option) \<Rightarrow> string option \<Rightarrow> bool" where
  "unusable cast val = (case val of None \<Rightarrow> True | Some s \<Rightarrow> s = [] \<or> cast s = None)"

text \<open>A submitted value parses to \<open>v\<close> when it is there, not empty, and the cast returns \<open>v\<close>.\<close>

definition parses_to :: "(string \<Rightarrow> pynum option) \<Rightarrow> string option \<Rightarrow> pynum \<Rightarrow> bool" where
  "parses_to cast val v = (case val of None \<Rightarrow> False | Some s \<Rightarrow> s \<noteq> [] \<and> cast s = Some v)"

text \<open>The required fields in the order of the dict \<^verbatim>\<open>required\<close>, and the cast of each (lines 78 to 82).\<close>

definition required_names :: "string list" where
  "required_names = [''age'', ''glucose'', ''bloodpressure'', ''insulin'', ''bmi'']"

definition cast_of :: "builtins \<Rightarrow> string \<Rightarrow> string \<Rightarrow> pynum option" where
  "cast_of b k = (if k = ''bmi'' then py_float b else py_int b)"

subsection \<open>Concrete builtins, classifiers and forms\<close>

text \<open>
  \<^verbatim>\<open>int(s)\<close> on an optional sign followed by ASCII digits. Python accepts more (blanks
  around the literal, underscores between digits); those strings are rejected here.
\<close>

definition digit_of :: "char \<rightharpoonup> nat" where
  "digit_of = map_of
     [(CHR ''0'', 0), (CHR ''1'', 1), (CHR ''2'', 2), (CHR ''3'', 3), (CHR ''4'', 4),
      (CHR ''5'', 5), (CHR ''6'', 6), (CHR ''7'', 7), (CHR ''8'', 8), (CHR ''9'', 9)]"

fun decimal :: "nat \<Rightarrow> string \<Rightarrow> nat option" where
  "decimal acc [] = Some acc"
| "decimal acc (c # cs) =
     (case digit_of c of None \<Rightarrow> None | Some d \<Rightarrow> decimal (10 * acc + d) cs)"

definition unsigned :: "string \<Rightarrow> int option" where
  "unsigned s = (if s = [] then None else map_option int (decimal 0 s))"

definition int_literal :: "string \<Rightarrow> pynum option" where
  "int_literal s =
     (case s of
        [] \<Rightarrow> None
      | c # cs \<Rightarrow>
          if c = CHR ''-'' then map_option (\<lambda>n. IntV (- n)) (unsigned cs)
          else if c = CHR ''+'' then map_option IntV (unsigned cs)
          else map_option IntV (unsigned s))"

text \<open>\<^verbatim>\<open>float(s)\<close> on a few literals whose value is a double, \<open>inf\<close> or \<open>nan\<close>.\<close>

definition float_literal :: "string \<Rightarrow> pynum option" where
  "float_literal = map_of
     [(''32.5'', FloatV (Finite (65 / 2))),
      (''0.0'', FloatV (Finite 0)),
      (''0.5'', FloatV (Finite (1 / 2))),
      (''-1.5'', FloatV (Finite (- 3 / 2))),
      (''1e999'', FloatV PInf),
      (''nan'', FloatV NaN)]"

text \<open>
  \<^verbatim>\<open>round(x, k)\<close>: to the nearest multiple of \<open>10 ^ (- k)\<close>, a tie to the even one; the
  result is taken as that decimal itself.
\<close>

definition round_half_even :: "rat \<Rightarrow> int" where
  "round_half_even q =
     (let n = \<lfloor>q\<rfloor>; r = q - of_int n
      in if r < 1 / 2 then n else if 1 / 2 < r then n + 1 else if even n then n else n + 1)"

definition round_decimal :: "pyfloat \<Rightarrow> nat \<Rightarrow> pyfloat" where
  "round_decimal x k =
     (case x of Finite q \<Rightarrow> Finite (of_int (round_half_even (q * 10 ^ k)) / 10 ^ k) | _ \<Rightarrow> x)"

definition python :: builtins where
  "python = \<lparr> py_int = int_literal, py_float = float_literal, py_round = round_decimal \<rparr>"

text \<open>A classifier that answers every row with class \<open>y\<close> and probability \<open>p\<close> for class 1.\<close>

definition fixed_model :: "rat \<Rightarrow> int \<Rightarrow> classifier" where
  "fixed_model p y =
     \<lparr> model_predict_proba = (\<lambda>X. Inr (map (\<lambda>row. [Finite (1 - p), Finite p]) X)),
       model_predict = (\<lambda>X. Inr (map (\<lambda>row. y) X)) \<rparr>"

text \<open>A classifier fitted to \<open>n\<close> features: it raises on a row of another length.\<close>

definition fitted_model :: "nat \<Rightarrow> classifier" where
  "fitted_model n =
     \<lparr> model_predict_proba = (\<lambda>X.
         if list_all (\<lambda>row. length row = n) X
         then Inr (map (\<lambda>row. [Finite (1 / 2), Finite (1 / 2)]) X)
         else Inl (Raised ''X has another number of features than the classifier expects'')),
       model_predict = (\<lambda>X.
         if list_all (\<lambda>row. length row = n) X
         then Inr (map (\<lambda>row. 0) X)
         else Inl (Raised ''X has another number of features than the classifier expects'')) \<rparr>"

text \<open>A classifier whose probability rows have one entry only.\<close>

definition short_model :: classifier where
  "short_model =
     \<lparr> model_predict_proba = (\<lambda>X. Inr (map (\<lambda>row. [Finite 1]) X)),
       model_predict = (\<lambda>X. Inr (map (\<lambda>row. 1) X)) \<rparr>"

text \<open>The example of the specification: the five required fields, the optional ones blank.\<close>

definition form_required :: form where
  "form_required = map_of
     [(''name'', ''Test''), (''age'', ''45''), (''glucose'', ''180''),
      (''bloodpressure'', ''90''), (''insulin'', ''120''), (''bmi'', ''32.5'')]"

text \<open>No age, a bloodpressure that is no number, an empty insulin.\<close>

definition form_invalid :: form where
  "form_invalid = map_of
     [(''name'', ''Test''), (''glucose'', ''180''), (''bloodpressure'', ''abc''),
      (''insulin'', []), (''bmi'', ''32.5'')]"

text \<open>Values outside the ranges, and no name.\<close>

definition form_extreme :: form where
  "form_extreme = map_of
     [(''age'', ''-3''), (''glucose'', ''9999''), (''bloodpressure'', ''90''),
      (''insulin'', ''120''), (''bmi'', ''nan''), (''pregnancies'', ''7''),
      (''skinthickness'', ''3''), (''dpf'', ''1e999'')]"

text \<open>The optional fields submitted as zero.\<close>

definition form_zero_skin :: form where
  "form_zero_skin = form_required(''pregnancies'' \<mapsto> ''0'', ''skinthickness'' \<mapsto> ''0'')"

definition form_zero_dpf :: form where
  "form_zero_dpf = form_required(''dpf'' \<mapsto> ''0.0'')"

definition form_zero_optional :: form where
  "form_zero_optional =
     form_required(''pregnancies'' \<mapsto> ''0'', ''skinthickness'' \<mapsto> ''0'', ''dpf'' \<mapsto> ''0.0'')"

text \<open>The variables after line 103 and the array of line 106 for \<open>form_required\<close>.\<close>

definition clamped_required :: locals where
  "clamped_required =
     \<lparr> name = ''Test'', age = Some (IntV 45), glucose = Some (IntV 180),
       bloodpressure = Some (IntV 90), insulin = Some (IntV 120),
       bmi = Some (FloatV (Finite (65 / 2))), pregnancies = Some (IntV 0),
       skinthickness = Some (IntV 10), dpf = Some (FloatV float_0_2) \<rparr>"

definition features_required :: "pyfloat list list" where
  "features_required =
     [[Finite 0, Finite 180, Finite 90, Finite 10, Finite 120, Finite (65 / 2), float_0_2,
       Finite 45]]"

text \<open>The same for \<open>form_extreme\<close>.\<close>

definition clamped_extreme :: locals where
  "clamped_extreme =
     \<lparr> name = ''Unknown'', age = Some (IntV 1), glucose = Some (IntV 500),
       bloodpressure = Some (IntV 90), insulin = Some (IntV 120),
       bmi = Some (FloatV (Finite 70)), pregnancies = Some (IntV 7),
       skinthickness = Some (IntV 5), dpf = Some (FloatV (Finite 3)) \<rparr>"

definition features_extreme :: "pyfloat list list" where
  "features_extreme =
     [[Finite 7, Finite 500, Finite 90, Finite 5, Finite 120, Finite 70, Finite 3, Finite 1]]"

section \<open>Properties\<close>

subsection \<open>The stages of the route\<close>

lemma and_then_simps [simp]: "and_then (Inr x) f = f x" "and_then (Inl e) f = Inl e"
  by (simp_all add: and_then_def)

lemma RANGES_at:
  "getitem RANGES ''pregnancies'' = Inr (IntV 0, IntV 20)"
  "getitem RANGES ''age'' = Inr (IntV 1, IntV 120)"
  "getitem RANGES ''glucose'' = Inr (IntV 20, IntV 500)"
  "getitem RANGES ''bloodpressure'' = Inr (IntV 20, IntV 200)"
  "getitem RANGES ''skinthickness'' = Inr (IntV 5, IntV 100)"
  "getitem RANGES ''insulin'' = Inr (IntV 0, IntV 900)"
  "getitem RANGES ''bmi'' = Inr (FloatV (Finite 10), FloatV (Finite 70))"
  "getitem RANGES ''dpf'' = Inr (FloatV (Finite 0), FloatV (Finite 3))"
  by (simp_all add: getitem_def RANGES_def)

lemma DEFAULTS_at:
  "getitem DEFAULTS ''pregnancies'' = Inr (IntV 0)"
  "getitem DEFAULTS ''skinthickness'' = Inr (IntV 10)"
  "getitem DEFAULTS ''dpf'' = Inr (FloatV float_0_2)"
  by (simp_all add: getitem_def DEFAULTS_def)

lemma read_form_total:
  "read_form b form =
     Inr \<lparr> name = (case form ''name'' of None \<Rightarrow> ''Unknown'' | Some s \<Rightarrow> s),
           age = to_number (form ''age'') (py_int b) None,
           glucose = to_number (form ''glucose'') (py_int b) None,
           bloodpressure = to_number (form ''bloodpressure'') (py_int b) None,
           insulin = to_number (form ''insulin'') (py_int b) None,
           bmi = to_number (form ''bmi'') (py_float b) None,
           pregnancies = to_number (form ''pregnancies'') (py_int b) (Some (IntV 0)),
           skinthickness = to_number (form ''skinthickness'') (py_int b) (Some (IntV 10)),
           dpf = to_number (form ''dpf'') (py_float b) (Some (FloatV float_0_2)) \<rparr>"
  by (simp add: read_form_def DEFAULTS_at)

lemma clamp_Some:
  "getitem RANGES k = Inr (lo, hi) \<Longrightarrow> clamp k (Some v) = Inr (Some (py_max lo (py_min hi v)))"
  by (simp add: clamp_def)

lemma clamp_None: "clamp k None = Inr None"
  by (simp add: clamp_def)



lemma saturate:
  assumes "exact lo = Finite l" "exact hi = Finite h" "l \<le> h"
  shows "exact (py_max lo (py_min hi v)) =
           (if float_lt (exact v) (Finite l) then Finite l
            else if float_lt (Finite h) (exact v) \<or> exact v = NaN then Finite h
            else exact v)"
proof (cases "exact v")
  case (Finite q)
  with assms show ?thesis by (simp add: py_max_def py_min_def num_lt_def)
next
  case PInf
  with assms show ?thesis by (simp add: py_max_def py_min_def num_lt_def)
next
  case NInf
  with assms show ?thesis by (simp add: py_max_def py_min_def num_lt_def)
next
  case NaN
  with assms show ?thesis by (simp add: py_max_def py_min_def num_lt_def)
qed

lemma saturate_bounds:
  assumes "exact lo = Finite l" "exact hi = Finite h" "l \<le> h"
  shows "\<exists>q. exact (py_max lo (py_min hi v)) = Finite q \<and> l \<le> q \<and> q \<le> h"
proof (cases "exact v")
  case (Finite q)
  with assms show ?thesis by (simp add: saturate [OF assms])
next
  case PInf
  with assms show ?thesis by (simp add: saturate [OF assms])
next
  case NInf
  with assms show ?thesis by (simp add: saturate [OF assms])
next
  case NaN
  with assms show ?thesis by (simp add: saturate [OF assms])
qed

lemma or_default_Some:
  assumes "getitem DEFAULTS k = Inr d"
  shows "or_default (Some v) k = Inr (Some (if is_zero v then d else v))"
  using assms by (simp add: or_default_def)

lemma to_number_None_iff:
  "to_number val cast None = None \<longleftrightarrow> val = None \<or> val = Some [] \<or> cast (the val) = None"
  by (auto simp: to_number_def split: option.splits)

lemma to_number_Some_default:
  "\<exists>v. to_number val cast (Some d) = Some v"
  by (auto simp: to_number_def split: option.splits)

lemma missing_Nil_iff:
  "missing f = [] \<longleftrightarrow>
     age f \<noteq> None \<and> glucose f \<noteq> None \<and> bloodpressure f \<noteq> None \<and> insulin f \<noteq> None \<and> bmi f \<noteq> None"
  by (simp add: missing_def required_def)

lemma clamp_fields_Some:
  assumes "age f = Some a" "glucose f = Some g" "bloodpressure f = Some bp"
    "insulin f = Some i" "bmi f = Some bm"
    "pregnancies f = Some p" "skinthickness f = Some s" "dpf f = Some d"
  shows "clamp_fields f =
     Inr (f\<lparr> pregnancies := Some (py_max (IntV 0) (py_min (IntV 20) (if is_zero p then IntV 0 else p))),
              age := Some (py_max (IntV 1) (py_min (IntV 120) a)),
              glucose := Some (py_max (IntV 20) (py_min (IntV 500) g)),
              bloodpressure := Some (py_max (IntV 20) (py_min (IntV 200) bp)),
              skinthickness := Some (py_max (IntV 5) (py_min (IntV 100) (if is_zero s then IntV 10 else s))),
              insulin := Some (py_max (IntV 0) (py_min (IntV 900) i)),
              bmi := Some (py_max (FloatV (Finite 10)) (py_min (FloatV (Finite 70)) bm)),
              dpf := Some (py_max (FloatV (Finite 0)) (py_min (FloatV (Finite 3))
                       (if is_zero d then FloatV float_0_2 else d))) \<rparr>)"
  unfolding clamp_fields_def
  by (simp only: assms or_default_Some [OF DEFAULTS_at(1)] or_default_Some [OF DEFAULTS_at(2)]
        or_default_Some [OF DEFAULTS_at(3)] and_then_simps
        clamp_Some [OF RANGES_at(1)] clamp_Some [OF RANGES_at(2)] clamp_Some [OF RANGES_at(3)]
        clamp_Some [OF RANGES_at(4)] clamp_Some [OF RANGES_at(5)] clamp_Some [OF RANGES_at(6)]
        clamp_Some [OF RANGES_at(7)] clamp_Some [OF RANGES_at(8)])

lemma feature_array_Some:
  assumes "pregnancies c = Some p" "glucose c = Some g" "bloodpressure c = Some bp"
    "skinthickness c = Some s" "insulin c = Some i" "bmi c = Some bm" "dpf c = Some d"
    "age c = Some a"
  shows "feature_array c =
           Inr [[exact p, exact g, exact bp, exact s, exact i, exact bm, exact d, exact a]]"
  by (simp add: feature_array_def as_float_def assms)


lemma normalize_form_Ready_D:
  assumes "normalize_form b form = Inr (Ready c X)"
  obtains a g bp i bm p s d where
    "to_number (form ''age'') (py_int b) None = Some a"
    "to_number (form ''glucose'') (py_int b) None = Some g"
    "to_number (form ''bloodpressure'') (py_int b) None = Some bp"
    "to_number (form ''insulin'') (py_int b) None = Some i"
    "to_number (form ''bmi'') (py_float b) None = Some bm"
    "to_number (form ''pregnancies'') (py_int b) (Some (IntV 0)) = Some p"
    "to_number (form ''skinthickness'') (py_int b) (Some (IntV 10)) = Some s"
    "to_number (form ''dpf'') (py_float b) (Some (FloatV float_0_2)) = Some d"
    "name c = (case form ''name'' of None \<Rightarrow> ''Unknown'' | Some n \<Rightarrow> n)"
    "age c = Some (py_max (IntV 1) (py_min (IntV 120) a))"
    "glucose c = Some (py_max (IntV 20) (py_min (IntV 500) g))"
    "bloodpressure c = Some (py_max (IntV 20) (py_min (IntV 200) bp))"
    "insulin c = Some (py_max (IntV 0) (py_min (IntV 900) i))"
    "bmi c = Some (py_max (FloatV (Finite 10)) (py_min (FloatV (Finite 70)) bm))"
    "pregnancies c = Some (py_max (IntV 0) (py_min (IntV 20) (if is_zero p then IntV 0 else p)))"
    "skinthickness c = Some (py_max (IntV 5) (py_min (IntV 100) (if is_zero s then IntV 10 else s)))"
    "dpf c = Some (py_max (FloatV (Finite 0)) (py_min (FloatV (Finite 3))
                     (if is_zero d then FloatV float_0_2 else d)))"
    "X = [[exact (the (pregnancies c)), exact (the (glucose c)), exact (the (bloodpressure c)),
           exact (the (skinthickness c)), exact (the (insulin c)), exact (the (bmi c)),
           exact (the (dpf c)), exact (the (age c))]]"
proof -
  obtain f where f: "read_form b form = Inr f"
    by (simp add: read_form_total)
  have sel: "name f = (case form ''name'' of None \<Rightarrow> ''Unknown'' | Some n \<Rightarrow> n)"
    "age f = to_number (form ''age'') (py_int b) None"
    "glucose f = to_number (form ''glucose'') (py_int b) None"
    "bloodpressure f = to_number (form ''bloodpressure'') (py_int b) None"
    "insulin f = to_number (form ''insulin'') (py_int b) None"
    "bmi f = to_number (form ''bmi'') (py_float b) None"
    "pregnancies f = to_number (form ''pregnancies'') (py_int b) (Some (IntV 0))"
    "skinthickness f = to_number (form ''skinthickness'') (py_int b) (Some (IntV 10))"
    "dpf f = to_number (form ''dpf'') (py_float b) (Some (FloatV float_0_2))"
    using f by (auto simp: read_form_total)
  have m: "missing f = []"
    using assms f by (auto simp: normalize_form_def split: if_splits)
  then obtain a g bp i bm where req: "age f = Some a" "glucose f = Some g"
    "bloodpressure f = Some bp" "insulin f = Some i" "bmi f = Some bm"
    by (auto simp: missing_Nil_iff)
  obtain p s d where opt: "pregnancies f = Some p" "skinthickness f = Some s" "dpf f = Some d"
    unfolding sel using to_number_Some_default by metis
  note cf = clamp_fields_Some [OF req opt]
  have c: "c = f\<lparr> pregnancies := Some (py_max (IntV 0) (py_min (IntV 20) (if is_zero p then IntV 0 else p))),
              age := Some (py_max (IntV 1) (py_min (IntV 120) a)),
              glucose := Some (py_max (IntV 20) (py_min (IntV 500) g)),
              bloodpressure := Some (py_max (IntV 20) (py_min (IntV 200) bp)),
              skinthickness := Some (py_max (IntV 5) (py_min (IntV 100) (if is_zero s then IntV 10 else s))),
              insulin := Some (py_max (IntV 0) (py_min (IntV 900) i)),
              bmi := Some (py_max (FloatV (Finite 10)) (py_min (FloatV (Finite 70)) bm)),
              dpf := Some (py_max (FloatV (Finite 0)) (py_min (FloatV (Finite 3))
                       (if is_zero d then FloatV float_0_2 else d))) \<rparr>" (is "c = ?c")
    using assms unfolding normalize_form_def f and_then_simps m cf
    by (auto simp: and_then_def split: sum.splits)
  have fa: "feature_array c = Inr X"
    using assms unfolding normalize_form_def f and_then_simps m cf
    by (auto simp: and_then_def split: sum.splits)
  have X: "X = [[exact (the (pregnancies c)), exact (the (glucose c)), exact (the (bloodpressure c)),
           exact (the (skinthickness c)), exact (the (insulin c)), exact (the (bmi c)),
           exact (the (dpf c)), exact (the (age c))]]"
    using fa by (simp add: c feature_array_def as_float_def)
  show thesis
    by (rule that [of a g bp i bm p s d]) (use req opt sel X in \<open>simp_all add: c\<close>)
qed


lemma unusable_iff: "unusable cast val \<longleftrightarrow> to_number val cast None = None"
  by (auto simp: unusable_def to_number_def split: option.splits)

lemma missing_read_form:
  assumes "read_form b form = Inr f"
  shows "missing f = filter (\<lambda>k. unusable (cast_of b k) (form k)) required_names"
proof -
  have "f = \<lparr> name = (case form ''name'' of None \<Rightarrow> ''Unknown'' | Some s \<Rightarrow> s),
           age = to_number (form ''age'') (py_int b) None,
           glucose = to_number (form ''glucose'') (py_int b) None,
           bloodpressure = to_number (form ''bloodpressure'') (py_int b) None,
           insulin = to_number (form ''insulin'') (py_int b) None,
           bmi = to_number (form ''bmi'') (py_float b) None,
           pregnancies = to_number (form ''pregnancies'') (py_int b) (Some (IntV 0)),
           skinthickness = to_number (form ''skinthickness'') (py_int b) (Some (IntV 10)),
           dpf = to_number (form ''dpf'') (py_float b) (Some (FloatV float_0_2)) \<rparr>"
    using assms by (simp add: read_form_total)
  then show ?thesis
    by (simp add: missing_def required_def required_names_def cast_of_def unusable_iff)
qed

lemma normalize_form_Missing:
  assumes "read_form b form = Inr f" "missing f \<noteq> []"
  shows "normalize_form b form = Inr (Missing (missing f))"
  using assms by (simp add: normalize_form_def)

lemma normalize_form_Ready:
  assumes "read_form b form = Inr f" "missing f = []"
  shows "\<exists>c X. normalize_form b form = Inr (Ready c X)"
proof -
  obtain a g bp i bm where req: "age f = Some a" "glucose f = Some g"
    "bloodpressure f = Some bp" "insulin f = Some i" "bmi f = Some bm"
    using assms(2) by (auto simp: missing_Nil_iff)
  have sel: "pregnancies f = to_number (form ''pregnancies'') (py_int b) (Some (IntV 0))"
    "skinthickness f = to_number (form ''skinthickness'') (py_int b) (Some (IntV 10))"
    "dpf f = to_number (form ''dpf'') (py_float b) (Some (FloatV float_0_2))"
    using assms(1) by (auto simp: read_form_total)
  obtain p s d where opt: "pregnancies f = Some p" "skinthickness f = Some s" "dpf f = Some d"
    unfolding sel using to_number_Some_default by metis
  show ?thesis
    unfolding normalize_form_def assms and_then_simps clamp_fields_Some [OF req opt]
    by (simp add: feature_array_def as_float_def)
qed

subsection \<open>The examples, evaluated\<close>

lemmas sample_defs = python_def int_literal_def float_literal_def unsigned_def digit_of_def
  form_required_def form_invalid_def form_extreme_def form_zero_skin_def form_zero_dpf_def
  form_zero_optional_def

lemmas eval_defs = normalize_form_def read_form_total missing_def required_def to_number_def
  clamp_fields_def or_default_def clamp_def DEFAULTS_at RANGES_at py_max_def py_min_def num_lt_def
  feature_array_def as_float_def sample_defs

lemma normalize_required:
  "normalize_form python form_required = Inr (Ready clamped_required features_required)"
  by (simp add: eval_defs clamped_required_def features_required_def) (simp add: float_0_2_def)

lemma normalize_extreme:
  "normalize_form python form_extreme = Inr (Ready clamped_extreme features_extreme)"
  by (simp add: eval_defs clamped_extreme_def features_extreme_def)

lemma normalize_zero_skin:
  "normalize_form python form_zero_skin = Inr (Ready clamped_required features_required)"
  by (simp add: eval_defs clamped_required_def features_required_def) (simp add: float_0_2_def)

lemma normalize_zero_dpf:
  "normalize_form python form_zero_dpf = Inr (Ready clamped_required features_required)"
  by (simp add: eval_defs clamped_required_def features_required_def) (simp add: float_0_2_def)

lemma normalize_zero_optional:
  "normalize_form python form_zero_optional = Inr (Ready clamped_required features_required)"
  by (simp add: eval_defs clamped_required_def features_required_def) (simp add: float_0_2_def)

subsection \<open>Validation of the required fields\<close>

text \<open>
  Claim C2. Let \<open>ms\<close> be the required fields, in the order age, glucose, bloodpressure,
  insulin, bmi, whose submitted value is absent, empty or rejected by the cast of the
  field. If \<open>ms\<close> is not empty the normalization fails with exactly the list \<open>ms\<close>, and the
  route answers with status 400 and a text that names every field of \<open>ms\<close>, leaving the
  table as it was; if \<open>ms\<close> is empty the normalization succeeds.
\<close>

theorem validation_names_every_unusable_field:
  fixes b form
  defines "ms \<equiv> filter (\<lambda>k. unusable (cast_of b k) (form k)) required_names"
  shows "(ms \<noteq> [] \<longrightarrow>
            normalize_form b form = Inr (Missing ms) \<and>
            predict b m form db =
              (Inr (Plain (''Missing or invalid fields: '' @ join '', '' ms
                            @ ''. Please provide valid numeric values.'') 400), db))
       \<and> (ms = [] \<longrightarrow> (\<exists>c X. normalize_form b form = Inr (Ready c X)))"
proof -
  obtain f where f: "read_form b form = Inr f"
    by (simp add: read_form_total)
  have ms: "missing f = ms"
    unfolding ms_def by (rule missing_read_form [OF f])
  show ?thesis
  proof (cases "ms = []")
    case True
    then show ?thesis using normalize_form_Ready [OF f] ms by simp
  next
    case False
    then have "normalize_form b form = Inr (Missing ms)"
      using normalize_form_Missing [OF f] ms by simp
    then show ?thesis using False by (simp add: predict_def)
  qed
qed

text \<open>The theorem at a form with three unusable required fields and at a complete one.\<close>

lemma unusable_invalid:
  "filter (\<lambda>k. unusable (cast_of python k) (form_invalid k)) required_names
     = [''age'', ''bloodpressure'', ''insulin'']"
  by (simp add: required_names_def unusable_def cast_of_def sample_defs)

lemma unusable_required:
  "filter (\<lambda>k. unusable (cast_of python k) (form_required k)) required_names = []"
  by (simp add: required_names_def unusable_def cast_of_def sample_defs)

theorem validation_names_every_unusable_field_witness:
  "normalize_form python form_invalid = Inr (Missing [''age'', ''bloodpressure'', ''insulin''])
   \<and> predict python (fixed_model (3 / 4) 1) form_invalid [] =
       (Inr (Plain ''Missing or invalid fields: age, bloodpressure, insulin. Please provide valid numeric values.'' 400), [])
   \<and> (\<exists>c X. normalize_form python form_required = Inr (Ready c X))"
  using validation_names_every_unusable_field [of python form_invalid "fixed_model (3 / 4) 1" "[]"]
    validation_names_every_unusable_field [of python form_required "fixed_model (3 / 4) 1" "[]"]
  unfolding unusable_invalid unusable_required by simp

subsection \<open>The feature vector\<close>

lemma exact_bounds:
  "exact (IntV 0) = Finite 0" "exact (IntV 1) = Finite 1" "exact (IntV 5) = Finite 5"
  "exact (IntV 20) = Finite 20" "exact (IntV 100) = Finite 100" "exact (IntV 120) = Finite 120"
  "exact (IntV 200) = Finite 200" "exact (IntV 500) = Finite 500" "exact (IntV 900) = Finite 900"
  "exact (FloatV (Finite q)) = Finite q"
  by simp_all

text \<open>
  Claim C7. Whenever the normalization succeeds, the array handed to the classifier is one
  row of eight finite values, each inside the closed range declared for its field:
  pregnancies in [0, 20], glucose in [20, 500], bloodpressure in [20, 200], skinthickness
  in [5, 100], insulin in [0, 900], bmi in [10, 70], dpf in [0, 3], age in [1, 120]. This
  holds whatever the casts return, \<open>inf\<close> and \<open>nan\<close> included.
\<close>

theorem features_within_declared_ranges:
  assumes "normalize_form b form = Inr (Ready c X)"
  shows "\<exists>p g bp s i bm d a.
           X = [[Finite p, Finite g, Finite bp, Finite s, Finite i, Finite bm, Finite d, Finite a]]
         \<and> 0 \<le> p \<and> p \<le> 20 \<and> 20 \<le> g \<and> g \<le> 500 \<and> 20 \<le> bp \<and> bp \<le> 200
         \<and> 5 \<le> s \<and> s \<le> 100 \<and> 0 \<le> i \<and> i \<le> 900 \<and> 10 \<le> bm \<and> bm \<le> 70
         \<and> 0 \<le> d \<and> d \<le> 3 \<and> 1 \<le> a \<and> a \<le> 120"
proof -
  from assms obtain a0 g0 bp0 i0 bm0 p0 s0 d0 where
    c: "age c = Some (py_max (IntV 1) (py_min (IntV 120) a0))"
       "glucose c = Some (py_max (IntV 20) (py_min (IntV 500) g0))"
       "bloodpressure c = Some (py_max (IntV 20) (py_min (IntV 200) bp0))"
       "insulin c = Some (py_max (IntV 0) (py_min (IntV 900) i0))"
       "bmi c = Some (py_max (FloatV (Finite 10)) (py_min (FloatV (Finite 70)) bm0))"
       "pregnancies c = Some (py_max (IntV 0) (py_min (IntV 20) (if is_zero p0 then IntV 0 else p0)))"
       "skinthickness c = Some (py_max (IntV 5) (py_min (IntV 100) (if is_zero s0 then IntV 10 else s0)))"
       "dpf c = Some (py_max (FloatV (Finite 0)) (py_min (FloatV (Finite 3))
                     (if is_zero d0 then FloatV float_0_2 else d0)))"
    and X: "X = [[exact (the (pregnancies c)), exact (the (glucose c)), exact (the (bloodpressure c)),
           exact (the (skinthickness c)), exact (the (insulin c)), exact (the (bmi c)),
           exact (the (dpf c)), exact (the (age c))]]"
    by (rule normalize_form_Ready_D)
  obtain p where p: "exact (the (pregnancies c)) = Finite p" "0 \<le> p" "p \<le> 20"
    unfolding c option.sel
    using saturate_bounds [OF exact_bounds(1) exact_bounds(4), of "if is_zero p0 then IntV 0 else p0"]
    by auto
  obtain g where g: "exact (the (glucose c)) = Finite g" "20 \<le> g" "g \<le> 500"
    unfolding c option.sel
    using saturate_bounds [OF exact_bounds(4) exact_bounds(8), of g0] by auto
  obtain bp where bp: "exact (the (bloodpressure c)) = Finite bp" "20 \<le> bp" "bp \<le> 200"
    unfolding c option.sel
    using saturate_bounds [OF exact_bounds(4) exact_bounds(7), of bp0] by auto
  obtain s where s: "exact (the (skinthickness c)) = Finite s" "5 \<le> s" "s \<le> 100"
    unfolding c option.sel
    using saturate_bounds [OF exact_bounds(3) exact_bounds(5), of "if is_zero s0 then IntV 10 else s0"]
    by auto
  obtain i where i: "exact (the (insulin c)) = Finite i" "0 \<le> i" "i \<le> 900"
    unfolding c option.sel
    using saturate_bounds [OF exact_bounds(1) exact_bounds(9), of i0] by auto
  obtain bm where bm: "exact (the (bmi c)) = Finite bm" "10 \<le> bm" "bm \<le> 70"
    unfolding c option.sel
    using saturate_bounds [OF exact_bounds(10) exact_bounds(10), of 10 70 bm0] by auto
  obtain d where d: "exact (the (dpf c)) = Finite d" "0 \<le> d" "d \<le> 3"
    unfolding c option.sel
    using saturate_bounds [OF exact_bounds(10) exact_bounds(10), of 0 3
        "if is_zero d0 then FloatV float_0_2 else d0"] by auto
  obtain a where a: "exact (the (age c)) = Finite a" "1 \<le> a" "a \<le> 120"
    unfolding c option.sel
    using saturate_bounds [OF exact_bounds(2) exact_bounds(6), of a0] by auto
  show ?thesis
    using X p g bp s i bm d a by simp
qed

theorem features_within_declared_ranges_witness:
  "normalize_form python form_extreme = Inr (Ready clamped_extreme features_extreme)
   \<and> features_extreme =
       [[Finite 7, Finite 500, Finite 90, Finite 5, Finite 120, Finite 70, Finite 3, Finite 1]]
   \<and> (\<exists>p g bp s i bm d a.
           features_extreme = [[Finite p, Finite g, Finite bp, Finite s, Finite i, Finite bm, Finite d, Finite a]]
         \<and> 0 \<le> p \<and> p \<le> 20 \<and> 20 \<le> g \<and> g \<le> 500 \<and> 20 \<le> bp \<and> bp \<le> 200
         \<and> 5 \<le> s \<and> s \<le> 100 \<and> 0 \<le> i \<and> i \<le> 900 \<and> 10 \<le> bm \<and> bm \<le> 70
         \<and> 0 \<le> d \<and> d \<le> 3 \<and> 1 \<le> a \<and> a \<le> 120)"
  using features_within_declared_ranges [OF normalize_extreme] normalize_extreme
  by (simp add: features_extreme_def)

lemma clamp_or_default:
  assumes "getitem DEFAULTS k = Inr d" "getitem RANGES k = Inr (lo, hi)"
  shows "and_then (or_default (Some v) k) (clamp k) =
           Inr (Some (py_max lo (py_min hi (if is_zero v then d else v))))"
  by (simp add: or_default_Some [OF assms(1)] clamp_Some [OF assms(2)])

text \<open>
  Claim C6. Whenever the normalization succeeds, the array handed to the classifier is one
  row of exactly eight entries, in the order pregnancies, glucose, bloodpressure,
  skinthickness, insulin, bmi, dpf, age: each position holds the value computed from the
  form entry of that name and of no other. The form is a map from names to values, so no
  iteration order of it exists that the result could depend on.
\<close>

theorem features_in_training_order:
  assumes "normalize_form b form = Inr (Ready c X)"
  shows "\<exists>p g bp s i bm d a.
           X = [[exact p, exact g, exact bp, exact s, exact i, exact bm, exact d, exact a]]
         \<and> and_then (or_default (to_number (form ''pregnancies'') (py_int b) (Some (IntV 0)))
                        ''pregnancies'') (clamp ''pregnancies'') = Inr (Some p)
         \<and> clamp ''glucose'' (to_number (form ''glucose'') (py_int b) None) = Inr (Some g)
         \<and> clamp ''bloodpressure'' (to_number (form ''bloodpressure'') (py_int b) None) = Inr (Some bp)
         \<and> and_then (or_default (to_number (form ''skinthickness'') (py_int b) (Some (IntV 10)))
                        ''skinthickness'') (clamp ''skinthickness'') = Inr (Some s)
         \<and> clamp ''insulin'' (to_number (form ''insulin'') (py_int b) None) = Inr (Some i)
         \<and> clamp ''bmi'' (to_number (form ''bmi'') (py_float b) None) = Inr (Some bm)
         \<and> and_then (or_default (to_number (form ''dpf'') (py_float b) (Some (FloatV float_0_2)))
                        ''dpf'') (clamp ''dpf'') = Inr (Some d)
         \<and> clamp ''age'' (to_number (form ''age'') (py_int b) None) = Inr (Some a)"
proof -
  from assms obtain a0 g0 bp0 i0 bm0 p0 s0 d0 where
    parsed: "to_number (form ''age'') (py_int b) None = Some a0"
      "to_number (form ''glucose'') (py_int b) None = Some g0"
      "to_number (form ''bloodpressure'') (py_int b) None = Some bp0"
      "to_number (form ''insulin'') (py_int b) None = Some i0"
      "to_number (form ''bmi'') (py_float b) None = Some bm0"
      "to_number (form ''pregnancies'') (py_int b) (Some (IntV 0)) = Some p0"
      "to_number (form ''skinthickness'') (py_int b) (Some (IntV 10)) = Some s0"
      "to_number (form ''dpf'') (py_float b) (Some (FloatV float_0_2)) = Some d0"
    and nm: "name c = (case form ''name'' of None \<Rightarrow> ''Unknown'' | Some n \<Rightarrow> n)"
    and c: "age c = Some (py_max (IntV 1) (py_min (IntV 120) a0))"
       "glucose c = Some (py_max (IntV 20) (py_min (IntV 500) g0))"
       "bloodpressure c = Some (py_max (IntV 20) (py_min (IntV 200) bp0))"
       "insulin c = Some (py_max (IntV 0) (py_min (IntV 900) i0))"
       "bmi c = Some (py_max (FloatV (Finite 10)) (py_min (FloatV (Finite 70)) bm0))"
       "pregnancies c = Some (py_max (IntV 0) (py_min (IntV 20) (if is_zero p0 then IntV 0 else p0)))"
       "skinthickness c = Some (py_max (IntV 5) (py_min (IntV 100) (if is_zero s0 then IntV 10 else s0)))"
       "dpf c = Some (py_max (FloatV (Finite 0)) (py_min (FloatV (Finite 3))
                     (if is_zero d0 then FloatV float_0_2 else d0)))"
    and X: "X = [[exact (the (pregnancies c)), exact (the (glucose c)), exact (the (bloodpressure c)),
           exact (the (skinthickness c)), exact (the (insulin c)), exact (the (bmi c)),
           exact (the (dpf c)), exact (the (age c))]]"
    by (rule normalize_form_Ready_D)
  show ?thesis
    unfolding parsed X c option.sel
      clamp_or_default [OF DEFAULTS_at(1) RANGES_at(1)]
      clamp_or_default [OF DEFAULTS_at(2) RANGES_at(5)]
      clamp_or_default [OF DEFAULTS_at(3) RANGES_at(8)]
      clamp_Some [OF RANGES_at(2)] clamp_Some [OF RANGES_at(3)] clamp_Some [OF RANGES_at(4)]
      clamp_Some [OF RANGES_at(6)] clamp_Some [OF RANGES_at(7)]
    by blast
qed

theorem features_in_training_order_witness:
  "normalize_form python form_extreme = Inr (Ready clamped_extreme features_extreme)
   \<and> (\<exists>p g bp s i bm d a.
           features_extreme = [[exact p, exact g, exact bp, exact s, exact i, exact bm, exact d, exact a]]
         \<and> and_then (or_default (to_number (form_extreme ''pregnancies'') (py_int python) (Some (IntV 0)))
                        ''pregnancies'') (clamp ''pregnancies'') = Inr (Some p)
         \<and> clamp ''glucose'' (to_number (form_extreme ''glucose'') (py_int python) None) = Inr (Some g)
         \<and> clamp ''bloodpressure'' (to_number (form_extreme ''bloodpressure'') (py_int python) None) = Inr (Some bp)
         \<and> and_then (or_default (to_number (form_extreme ''skinthickness'') (py_int python) (Some (IntV 10)))
                        ''skinthickness'') (clamp ''skinthickness'') = Inr (Some s)
         \<and> clamp ''insulin'' (to_number (form_extreme ''insulin'') (py_int python) None) = Inr (Some i)
         \<and> clamp ''bmi'' (to_number (form_extreme ''bmi'') (py_float python) None) = Inr (Some bm)
         \<and> and_then (or_default (to_number (form_extreme ''dpf'') (py_float python) (Some (FloatV float_0_2)))
                        ''dpf'') (clamp ''dpf'') = Inr (Some d)
         \<and> clamp ''age'' (to_number (form_extreme ''age'') (py_int python) None) = Inr (Some a))
   \<and> features_extreme =
       [[Finite 7, Finite 500, Finite 90, Finite 5, Finite 120, Finite 70, Finite 3, Finite 1]]"
  using features_in_training_order [OF normalize_extreme] normalize_extreme
  by (simp only: features_extreme_def simp_thms)

subsection \<open>Optional fields\<close>

lemma unusable_default:
  "unusable cast val \<Longrightarrow> to_number val cast (Some d) = Some d"
  by (auto simp: unusable_def to_number_def split: option.splits)

lemma parses_to_number:
  "parses_to cast val v \<Longrightarrow> to_number val cast dflt = Some v"
  by (auto simp: parses_to_def to_number_def split: option.splits)

lemma default_dpf_clamped:
  "\<not> is_zero (FloatV float_0_2)"
  "py_max (FloatV (Finite 0)) (py_min (FloatV (Finite 3)) (FloatV float_0_2)) = FloatV float_0_2"
  by (simp_all add: py_max_def py_min_def num_lt_def float_0_2_def)

text \<open>
  Claim C5. Whenever the normalization succeeds, an optional field whose submitted value is
  absent, empty or rejected by its cast has its declared default as normalized value:
  pregnancies 0, skinthickness 10, dpf 0.2 (the double of that literal).
\<close>

theorem blank_optional_fields_get_defaults:
  assumes "normalize_form b form = Inr (Ready c X)"
  shows "(unusable (py_int b) (form ''pregnancies'') \<longrightarrow>
            pregnancies c = Some (IntV 0) \<and> hd X ! 0 = Finite 0)
       \<and> (unusable (py_int b) (form ''skinthickness'') \<longrightarrow>
            skinthickness c = Some (IntV 10) \<and> hd X ! 3 = Finite 10)
       \<and> (unusable (py_float b) (form ''dpf'') \<longrightarrow>
            dpf c = Some (FloatV float_0_2) \<and> hd X ! 6 = float_0_2)"
proof -
  from assms obtain a0 g0 bp0 i0 bm0 p0 s0 d0 where
    parsed: "to_number (form ''pregnancies'') (py_int b) (Some (IntV 0)) = Some p0"
      "to_number (form ''skinthickness'') (py_int b) (Some (IntV 10)) = Some s0"
      "to_number (form ''dpf'') (py_float b) (Some (FloatV float_0_2)) = Some d0"
    and c: "pregnancies c = Some (py_max (IntV 0) (py_min (IntV 20) (if is_zero p0 then IntV 0 else p0)))"
       "skinthickness c = Some (py_max (IntV 5) (py_min (IntV 100) (if is_zero s0 then IntV 10 else s0)))"
       "dpf c = Some (py_max (FloatV (Finite 0)) (py_min (FloatV (Finite 3))
                     (if is_zero d0 then FloatV float_0_2 else d0)))"
    and X: "X = [[exact (the (pregnancies c)), exact (the (glucose c)), exact (the (bloodpressure c)),
           exact (the (skinthickness c)), exact (the (insulin c)), exact (the (bmi c)),
           exact (the (dpf c)), exact (the (age c))]]"
    by (rule normalize_form_Ready_D)
  have p: "pregnancies c = Some (IntV 0)" if "unusable (py_int b) (form ''pregnancies'')"
    using unusable_default [OF that, of "IntV 0"] parsed(1) c(1)
    by (simp add: py_max_def py_min_def num_lt_def)
  have s: "skinthickness c = Some (IntV 10)" if "unusable (py_int b) (form ''skinthickness'')"
    using unusable_default [OF that, of "IntV 10"] parsed(2) c(2)
    by (simp add: py_max_def py_min_def num_lt_def)
  have d: "dpf c = Some (FloatV float_0_2)" if "unusable (py_float b) (form ''dpf'')"
  proof -
    have "d0 = FloatV float_0_2"
      using unusable_default [OF that, of "FloatV float_0_2"] parsed(3) by simp
    then show ?thesis
      using c(3) by (simp add: default_dpf_clamped)
  qed
  have Xs: "hd X ! 0 = exact (the (pregnancies c))" "hd X ! 3 = exact (the (skinthickness c))"
    "hd X ! 6 = exact (the (dpf c))"
    by (simp_all add: X)
  show ?thesis
    using p s d by (auto simp: Xs)
qed

theorem blank_optional_fields_get_defaults_witness:
  "normalize_form python form_required = Inr (Ready clamped_required features_required)
   \<and> unusable (py_int python) (form_required ''pregnancies'')
   \<and> unusable (py_int python) (form_required ''skinthickness'')
   \<and> unusable (py_float python) (form_required ''dpf'')
   \<and> hd features_required ! 0 = Finite 0
   \<and> hd features_required ! 3 = Finite 10
   \<and> hd features_required ! 6 = float_0_2"
proof -
  have u: "unusable (py_int python) (form_required ''pregnancies'')"
    "unusable (py_int python) (form_required ''skinthickness'')"
    "unusable (py_float python) (form_required ''dpf'')"
    by (simp_all add: unusable_def form_required_def)
  show ?thesis
    using blank_optional_fields_get_defaults [OF normalize_required] normalize_required u
    by simp
qed

subsection \<open>Zero in an optional field, and the clamp\<close>

text \<open>
  The function \<^verbatim>\<open>clamp\<close> saturates: for a field of the table and a number, the result has
  the value of the lower bound when the number is below it, of the upper bound when the
  number is above it or is \<open>nan\<close>, and of the number itself otherwise. It never raises.
\<close>

lemma clamp_saturates:
  assumes "getitem RANGES k = Inr (lo, hi)" "exact lo = Finite l" "exact hi = Finite h" "l \<le> h"
  shows "\<exists>r. clamp k (Some v) = Inr (Some r) \<and>
           exact r = (if float_lt (exact v) (Finite l) then Finite l
                      else if float_lt (Finite h) (exact v) \<or> exact v = NaN then Finite h
                      else exact v)"
  using saturate [OF assms(2-4), of v] by (simp add: clamp_Some [OF assms(1)])

text \<open>
  Claim C1 at the form whose three optional fields are submitted as zero. None of the three
  values is absent or unparsable: pregnancies and skinthickness parse to 0, dpf parses to
  0.0. Yet lines 96, 100 and 103 take the falsy zero for a blank and put the default in
  its place before they clamp: the normalized dpf is 0.2, the default, and not the 0.0
  that was submitted and that \<^verbatim>\<open>clamp\<close> would keep; the normalized skinthickness is 10,
  the default, and not the 5 that \<^verbatim>\<open>clamp\<close> makes of 0. For pregnancies the default is
  0 itself, so nothing shows.
\<close>

theorem zero_optional_replaced_by_default:
  "parses_to (py_float python) (form_zero_optional ''dpf'') (FloatV (Finite 0))
   \<and> parses_to (py_int python) (form_zero_optional ''skinthickness'') (IntV 0)
   \<and> parses_to (py_int python) (form_zero_optional ''pregnancies'') (IntV 0)
   \<and> normalize_form python form_zero_optional = Inr (Ready clamped_required features_required)
   \<and> hd features_required ! 6 = float_0_2
   \<and> DEFAULTS ''dpf'' = Some (FloatV float_0_2)
   \<and> float_0_2 \<noteq> Finite 0
   \<and> clamp ''dpf'' (Some (FloatV (Finite 0))) = Inr (Some (FloatV (Finite 0)))
   \<and> hd features_required ! 3 = Finite 10
   \<and> DEFAULTS ''skinthickness'' = Some (IntV 10)
   \<and> clamp ''skinthickness'' (Some (IntV 0)) = Inr (Some (IntV 5))
   \<and> hd features_required ! 0 = Finite 0"
  by (simp add: normalize_zero_optional clamp_Some [OF RANGES_at(8)] clamp_Some [OF RANGES_at(5)])
     (simp add: parses_to_def sample_defs features_required_def DEFAULTS_def
        py_max_def py_min_def num_lt_def float_0_2_def)

text \<open>
  Zero is the only parsed value the replacement touches. Whenever the normalization
  succeeds, an optional field whose submitted value parses to a number other than zero
  has that number, clamped into the range of the field, as its normalized value; and a
  pregnancies value that parses to zero normalizes to 0.
\<close>

lemma nonzero_optional_values_kept:
  assumes "normalize_form b form = Inr (Ready c X)"
  shows "(parses_to (py_int b) (form ''pregnancies'') v1 \<and> \<not> is_zero v1 \<longrightarrow>
            clamp ''pregnancies'' (Some v1) = Inr (pregnancies c)
            \<and> hd X ! 0 = exact (py_max (IntV 0) (py_min (IntV 20) v1)))
       \<and> (parses_to (py_int b) (form ''pregnancies'') v1 \<and> is_zero v1 \<longrightarrow>
            pregnancies c = Some (IntV 0) \<and> hd X ! 0 = Finite 0)
       \<and> (parses_to (py_int b) (form ''skinthickness'') v2 \<and> \<not> is_zero v2 \<longrightarrow>
            clamp ''skinthickness'' (Some v2) = Inr (skinthickness c)
            \<and> hd X ! 3 = exact (py_max (IntV 5) (py_min (IntV 100) v2)))
       \<and> (parses_to (py_float b) (form ''dpf'') v3 \<and> \<not> is_zero v3 \<longrightarrow>
            clamp ''dpf'' (Some v3) = Inr (dpf c)
            \<and> hd X ! 6 = exact (py_max (FloatV (Finite 0)) (py_min (FloatV (Finite 3)) v3)))"
proof -
  from assms obtain a0 g0 bp0 i0 bm0 p0 s0 d0 where
    parsed: "to_number (form ''pregnancies'') (py_int b) (Some (IntV 0)) = Some p0"
      "to_number (form ''skinthickness'') (py_int b) (Some (IntV 10)) = Some s0"
      "to_number (form ''dpf'') (py_float b) (Some (FloatV float_0_2)) = Some d0"
    and c: "pregnancies c = Some (py_max (IntV 0) (py_min (IntV 20) (if is_zero p0 then IntV 0 else p0)))"
       "skinthickness c = Some (py_max (IntV 5) (py_min (IntV 100) (if is_zero s0 then IntV 10 else s0)))"
       "dpf c = Some (py_max (FloatV (Finite 0)) (py_min (FloatV (Finite 3))
                     (if is_zero d0 then FloatV float_0_2 else d0)))"
    and X: "X = [[exact (the (pregnancies c)), exact (the (glucose c)), exact (the (bloodpressure c)),
           exact (the (skinthickness c)), exact (the (insulin c)), exact (the (bmi c)),
           exact (the (dpf c)), exact (the (age c))]]"
    by (rule normalize_form_Ready_D)
  have Xs: "hd X ! 0 = exact (the (pregnancies c))" "hd X ! 3 = exact (the (skinthickness c))"
    "hd X ! 6 = exact (the (dpf c))"
    by (simp_all add: X)
  have p: "clamp ''pregnancies'' (Some v1) = Inr (pregnancies c)
           \<and> hd X ! 0 = exact (py_max (IntV 0) (py_min (IntV 20) v1))"
    if "parses_to (py_int b) (form ''pregnancies'') v1" "\<not> is_zero v1"
  proof -
    have "p0 = v1" using parses_to_number [OF that(1), of "Some (IntV 0)"] parsed(1) by simp
    then show ?thesis
      using that(2) by (simp add: Xs c clamp_Some [OF RANGES_at(1)])
  qed
  have pz: "pregnancies c = Some (IntV 0) \<and> hd X ! 0 = Finite 0"
    if "parses_to (py_int b) (form ''pregnancies'') v1" "is_zero v1"
  proof -
    have "p0 = v1" using parses_to_number [OF that(1), of "Some (IntV 0)"] parsed(1) by simp
    then show ?thesis
      using that(2) by (simp add: Xs c py_max_def py_min_def num_lt_def)
  qed
  have s: "clamp ''skinthickness'' (Some v2) = Inr (skinthickness c)
           \<and> hd X ! 3 = exact (py_max (IntV 5) (py_min (IntV 100) v2))"
    if "parses_to (py_int b) (form ''skinthickness'') v2" "\<not> is_zero v2"
  proof -
    have "s0 = v2" using parses_to_number [OF that(1), of "Some (IntV 10)"] parsed(2) by simp
    then show ?thesis
      using that(2) by (simp add: Xs c clamp_Some [OF RANGES_at(5)])
  qed
  have d: "clamp ''dpf'' (Some v3) = Inr (dpf c)
           \<and> hd X ! 6 = exact (py_max (FloatV (Finite 0)) (py_min (FloatV (Finite 3)) v3))"
    if "parses_to (py_float b) (form ''dpf'') v3" "\<not> is_zero v3"
  proof -
    have "d0 = v3"
      using parses_to_number [OF that(1), of "Some (FloatV float_0_2)"] parsed(3) by simp
    then show ?thesis
      using that(2) by (simp add: Xs c clamp_Some [OF RANGES_at(8)])
  qed
  show ?thesis
    using p pz s d by blast
qed

lemma parses_extreme:
  "parses_to (py_int python) (form_extreme ''pregnancies'') (IntV 7)"
  "parses_to (py_int python) (form_extreme ''skinthickness'') (IntV 3)"
  "parses_to (py_float python) (form_extreme ''dpf'') (FloatV PInf)"
  "parses_to (py_int python) (form_zero_skin ''pregnancies'') (IntV 0)"
  by (simp_all add: parses_to_def sample_defs)

lemma nonzero_optional_values_kept_example:
  "normalize_form python form_extreme = Inr (Ready clamped_extreme features_extreme)
   \<and> parses_to (py_int python) (form_extreme ''pregnancies'') (IntV 7) \<and> \<not> is_zero (IntV 7)
   \<and> parses_to (py_int python) (form_extreme ''skinthickness'') (IntV 3) \<and> \<not> is_zero (IntV 3)
   \<and> parses_to (py_float python) (form_extreme ''dpf'') (FloatV PInf) \<and> \<not> is_zero (FloatV PInf)
   \<and> hd features_extreme ! 0 = Finite 7
   \<and> hd features_extreme ! 3 = Finite 5
   \<and> hd features_extreme ! 6 = Finite 3
   \<and> normalize_form python form_zero_skin = Inr (Ready clamped_required features_required)
   \<and> parses_to (py_int python) (form_zero_skin ''pregnancies'') (IntV 0) \<and> is_zero (IntV 0)
   \<and> hd features_required ! 0 = Finite 0"
  using nonzero_optional_values_kept [OF normalize_extreme, of "IntV 7" "IntV 3" "FloatV PInf"]
    nonzero_optional_values_kept [OF normalize_zero_skin, of "IntV 0" "IntV 3" "FloatV PInf"]
    normalize_extreme normalize_zero_skin parses_extreme
  by (simp add: py_max_def py_min_def num_lt_def)

text \<open>
  Claim C4 at the form whose dpf is \<open>0.0\<close>: the value parses to 0.0, which lies inside
  [0.0, 3.0] and which \<^verbatim>\<open>clamp\<close> leaves unchanged, yet the normalized dpf is 0.2, since
  line 103 replaces the falsy 0.0 by the default before it clamps.
\<close>

theorem zero_dpf_replaced_before_clamp:
  "parses_to (py_float python) (form_zero_dpf ''dpf'') (FloatV (Finite 0))
   \<and> clamp ''dpf'' (Some (FloatV (Finite 0))) = Inr (Some (FloatV (Finite 0)))
   \<and> normalize_form python form_zero_dpf = Inr (Ready clamped_required features_required)
   \<and> dpf clamped_required = Some (FloatV float_0_2)
   \<and> hd features_required ! 6 = float_0_2
   \<and> float_0_2 \<noteq> Finite 0"
  by (simp add: normalize_zero_dpf clamp_Some [OF RANGES_at(8)])
     (simp add: parses_to_def sample_defs clamped_required_def features_required_def
        py_max_def py_min_def num_lt_def float_0_2_def)

subsection \<open>Scoring, the answer and the table\<close>

lemma getindex_simps:
  "getindex (x # xs) 0 = Inr x"
  "1 < length xs \<Longrightarrow> getindex xs 1 = Inr (xs ! 1)"
  "getindex [] i = Inl (IndexError ''index out of range'')"
  "length xs < 2 \<Longrightarrow> getindex xs 1 = Inl (IndexError ''index out of range'')"
  by (simp_all add: getindex_def)

lemma predict_Ready:
  assumes "normalize_form b form = Inr (Ready c X)"
  shows "score m X = Inr (p, y) \<Longrightarrow>
           predict b m form db =
             (Inr (ResultPage (name c) (result_of y) (py_round b p 4) (inputs_of c)),
              db @ [patient_row c p (result_of y)])"
    and "score m X = Inl e \<Longrightarrow>
           predict b m form db = (Inr (Plain (''Model prediction error: '' @ exn_str e) 500), db)"
  by (simp_all add: predict_def assms Let_def)

lemma predict_Missing:
  assumes "normalize_form b form = Inr (Missing ms)"
  shows "predict b m form db =
           (Inr (Plain (''Missing or invalid fields: '' @ join '', '' ms
                         @ ''. Please provide valid numeric values.'') 400), db)"
  by (simp add: predict_def assms)

lemma normalize_form_cases:
  obtains (Missing) ms where "ms \<noteq> []" "normalize_form b form = Inr (Missing ms)"
    | (Ready) c X where "normalize_form b form = Inr (Ready c X)"
proof -
  obtain f where f: "read_form b form = Inr f"
    by (simp add: read_form_total)
  show thesis
  proof (cases "missing f = []")
    case True
    then show ?thesis using normalize_form_Ready [OF f] Ready by blast
  next
    case False
    then show ?thesis using normalize_form_Missing [OF f] Missing by blast
  qed
qed

text \<open>
  Claim C3. For every array of features and every classifier whose two methods return (a
  first row of at least two probabilities, a first predicted class \<open>y\<close>), the label is
  "Diabetes Risk" if and only if \<open>y\<close> is 1, it is "No Risk" for every other class, and the
  probability of the verdict is the entry at index 1 of the first probability row, as it
  is. That probability and label are what the route stores in the table; the rendered
  page shows the probability rounded to four decimals.
\<close>

theorem verdict_follows_classifier:
  assumes "model_predict_proba m X = Inr (probs # P)" "1 < length probs"
    and "model_predict m X = Inr (y # Y)"
  shows "score m X = Inr (probs ! 1, y)
       \<and> (result_of y = ''Diabetes Risk'' \<longleftrightarrow> y = 1)
       \<and> (y \<noteq> 1 \<longrightarrow> result_of y = ''No Risk'')
       \<and> (normalize_form b form = Inr (Ready c X) \<longrightarrow>
            predict b m form db =
              (Inr (ResultPage (name c) (result_of y) (py_round b (probs ! 1) 4) (inputs_of c)),
               db @ [patient_row c (probs ! 1) (result_of y)]))"
proof -
  have s: "score m X = Inr (probs ! 1, y)"
    using assms(2) by (simp add: score_def assms(1,3) getindex_def)
  show ?thesis
    using predict_Ready(1) [OF _ s] by (simp add: s result_of_def)
qed

lemma fixed_model_answers:
  "model_predict_proba (fixed_model p y) [row] = Inr ([Finite (1 - p), Finite p] # [])"
  "model_predict (fixed_model p y) [row] = Inr (y # [])"
  by (simp_all add: fixed_model_def)

theorem verdict_follows_classifier_witness:
  "model_predict_proba (fixed_model (3 / 4) 1) features_required
     = Inr ([Finite (1 / 4), Finite (3 / 4)] # [])
   \<and> model_predict (fixed_model (3 / 4) 1) features_required = Inr (1 # [])
   \<and> score (fixed_model (3 / 4) 1) features_required = Inr (Finite (3 / 4), 1)
   \<and> result_of 1 = ''Diabetes Risk''
   \<and> score (fixed_model (1 / 4) 0) features_required = Inr (Finite (1 / 4), 0)
   \<and> result_of 0 = ''No Risk''
   \<and> predict python (fixed_model (3 / 4) 1) form_required [] =
       (Inr (ResultPage ''Test'' ''Diabetes Risk'' (Finite (3 / 4)) (inputs_of clamped_required)),
        [patient_row clamped_required (Finite (3 / 4)) ''Diabetes Risk''])"
  using verdict_follows_classifier [of "fixed_model (3 / 4) 1" features_required
      "[Finite (1 / 4), Finite (3 / 4)]" "[]" 1 "[]" python form_required clamped_required "[]"]
    verdict_follows_classifier [of "fixed_model (1 / 4) 0" features_required
      "[Finite (3 / 4), Finite (1 / 4)]" "[]" 0 "[]" python form_required clamped_required "[]"]
    normalize_required
  by (simp add: features_required_def fixed_model_def clamped_required_def python_def
        round_decimal_def round_half_even_def)


text \<open>The ways the classifier can fail inside the \<^verbatim>\<open>try\<close>.\<close>

lemma score_fails:
  assumes "(\<exists>e. model_predict_proba m X = Inl e)
         \<or> (\<exists>P. model_predict_proba m X = Inr P \<and> (P = [] \<or> length (hd P) < 2))
         \<or> (\<exists>e. model_predict m X = Inl e)
         \<or> model_predict m X = Inr []"
  shows "\<exists>e. score m X = Inl e"
proof (cases "model_predict_proba m X")
  case (Inl e)
  then show ?thesis by (simp add: score_def)
next
  case (Inr P)
  show ?thesis
  proof (cases P)
    case Nil
    with Inr show ?thesis by (simp add: score_def getindex_def)
  next
    case (Cons probs P')
    show ?thesis
    proof (cases "length probs < 2")
      case True
      with Inr Cons show ?thesis by (simp add: score_def getindex_def)
    next
      case False
      with assms Inr Cons
      have "(\<exists>e. model_predict m X = Inl e) \<or> model_predict m X = Inr []"
        by auto
      then show ?thesis
        using Inr Cons False by (auto simp: score_def getindex_def)
    qed
  qed
qed

text \<open>
  Claim C8. Whenever the normalization succeeds and the classifier fails (one of its two
  methods raises, as it does when it rejects the number of features; the probabilities
  have no row, or a first row shorter than two; the predicted classes are empty), the
  scoring yields an exception \<open>e\<close> and the route returns, as an ordinary response, status
  500 with the text "Model prediction error: " followed by the text of \<open>e\<close>; no exception
  leaves the route, and the table is as it was.
\<close>

theorem classifier_failure_becomes_scoring_error:
  assumes "normalize_form b form = Inr (Ready c X)"
    and "(\<exists>e. model_predict_proba m X = Inl e)
       \<or> (\<exists>P. model_predict_proba m X = Inr P \<and> (P = [] \<or> length (hd P) < 2))
       \<or> (\<exists>e. model_predict m X = Inl e)
       \<or> model_predict m X = Inr []"
  shows "\<exists>e. score m X = Inl e
           \<and> predict b m form db =
               (Inr (Plain (''Model prediction error: '' @ exn_str e) 500), db)"
proof -
  from score_fails [OF assms(2)] obtain e where e: "score m X = Inl e" ..
  then show ?thesis
    using predict_Ready(2) [OF assms(1) e] by blast
qed

lemma failing_models:
  "model_predict_proba (fitted_model 7) features_required
     = Inl (Raised ''X has another number of features than the classifier expects'')"
  "model_predict_proba short_model features_required = Inr [[Finite 1]]"
  by (simp_all add: fitted_model_def short_model_def features_required_def)

theorem classifier_failure_becomes_scoring_error_witness:
  "normalize_form python form_required = Inr (Ready clamped_required features_required)
   \<and> model_predict_proba (fitted_model 7) features_required
       = Inl (Raised ''X has another number of features than the classifier expects'')
   \<and> predict python (fitted_model 7) form_required [] =
       (Inr (Plain ''Model prediction error: X has another number of features than the classifier expects'' 500), [])
   \<and> model_predict_proba short_model features_required = Inr [[Finite 1]]
   \<and> predict python short_model form_required [] =
       (Inr (Plain ''Model prediction error: index out of range'' 500), [])"
proof -
  have 1: "\<exists>e. score (fitted_model 7) features_required = Inl e
           \<and> predict python (fitted_model 7) form_required [] =
               (Inr (Plain (''Model prediction error: '' @ exn_str e) 500), [])"
    by (rule classifier_failure_becomes_scoring_error [OF normalize_required])
       (simp add: failing_models)
  have 2: "\<exists>e. score short_model features_required = Inl e
           \<and> predict python short_model form_required [] =
               (Inr (Plain (''Model prediction error: '' @ exn_str e) 500), [])"
    by (rule classifier_failure_becomes_scoring_error [OF normalize_required])
       (simp add: failing_models)
  have s: "score (fitted_model 7) features_required
             = Inl (Raised ''X has another number of features than the classifier expects'')"
    "score short_model features_required = Inl (IndexError ''index out of range'')"
    by (simp_all add: score_def failing_models getindex_def)
  show ?thesis
    using 1 2 by (simp add: s normalize_required failing_models)
qed

text \<open>
  Claim C9. Every request ends in one of two ways. Either the normalization and the
  scoring both succeed, and then the route renders the result page and the table is the
  old one with exactly one row appended, the record of this request. Or the validation
  fails (status 400) or the scoring fails (status 500), and then the table is unchanged.
\<close>

theorem record_saved_exactly_on_success:
  "(\<exists>c X p y. normalize_form b form = Inr (Ready c X) \<and> score m X = Inr (p, y)
        \<and> predict b m form db =
            (Inr (ResultPage (name c) (result_of y) (py_round b p 4) (inputs_of c)),
             db @ [patient_row c p (result_of y)]))
   \<or> ((\<exists>ms. normalize_form b form = Inr (Missing ms))
        \<or> (\<exists>c X e. normalize_form b form = Inr (Ready c X) \<and> score m X = Inl e))
      \<and> (\<exists>msg code. predict b m form db = (Inr (Plain msg code), db)
            \<and> (code = 400 \<or> code = 500))"
proof (cases b form rule: normalize_form_cases)
  case (Missing ms)
  then show ?thesis using predict_Missing [OF Missing(2)] by blast
next
  case (Ready c X)
  show ?thesis
  proof (cases "score m X")
    case (Inl e)
    then show ?thesis using predict_Ready(2) [OF Ready Inl] Ready by blast
  next
    case (Inr v)
    obtain p y where v: "v = (p, y)" by (cases v)
    show ?thesis using predict_Ready(1) [OF Ready Inr [unfolded v]] Ready Inr v by blast
  qed
qed


theorem record_saved_exactly_on_success_witness:
  "predict python (fixed_model (3 / 4) 1) form_required [] =
       (Inr (ResultPage ''Test'' ''Diabetes Risk'' (Finite (3 / 4)) (inputs_of clamped_required)),
        [patient_row clamped_required (Finite (3 / 4)) ''Diabetes Risk''])
   \<and> snd (predict python (fixed_model (3 / 4) 1) form_invalid []) = []
   \<and> snd (predict python short_model form_required []) = []"
proof -
  have s: "score (fixed_model (3 / 4) 1) features_required = Inr (Finite (3 / 4), 1)"
    "score short_model features_required = Inl (IndexError ''index out of range'')"
    by (simp_all add: score_def fixed_model_def short_model_def features_required_def getindex_def)
  have m: "normalize_form python form_invalid = Inr (Missing [''age'', ''bloodpressure'', ''insulin''])"
    by (simp add: eval_defs)
  have r: "py_round python (Finite (3 / 4)) 4 = Finite (3 / 4)"
    by (simp add: python_def round_decimal_def round_half_even_def)
  have p1: "predict python (fixed_model (3 / 4) 1) form_required [] =
       (Inr (ResultPage ''Test'' ''Diabetes Risk'' (Finite (3 / 4)) (inputs_of clamped_required)),
        [patient_row clamped_required (Finite (3 / 4)) ''Diabetes Risk''])"
    using predict_Ready(1) [OF normalize_required s(1), of "[]"]
    by (simp add: r result_of_def) (simp add: clamped_required_def)
  have p2: "snd (predict python (fixed_model (3 / 4) 1) form_invalid []) = []"
    by (simp add: predict_Missing [OF m])
  have p3: "snd (predict python short_model form_required []) = []"
    by (simp add: predict_Ready(2) [OF normalize_required s(2)])
  show ?thesis
    using record_saved_exactly_on_success [of python form_required "fixed_model (3 / 4) 1" "[]"]
    by (simp only: p1 p2 p3 simp_thms)
qed

subsection \<open>The name\<close>

lemma read_form_name_absent:
  assumes "form ''name'' = None"
  shows "read_form b (form(''name'' \<mapsto> ''Unknown'')) = read_form b form"
  by (simp add: read_form_total assms)

text \<open>
  Claim C10. When the form has no entry for the name, the route behaves exactly as if the
  name "Unknown" had been submitted: the name is never among the missing fields, the
  normalized variables carry the name "Unknown", and whenever the result page is rendered
  both the page and the one row appended to the table carry the name "Unknown".
\<close>

theorem absent_name_becomes_Unknown:
  assumes "form ''name'' = None"
  shows "predict b m form db = predict b m (form(''name'' \<mapsto> ''Unknown'')) db
       \<and> (\<forall>ms. normalize_form b form = Inr (Missing ms) \<longrightarrow> ''name'' \<notin> set ms)
       \<and> (\<forall>c X. normalize_form b form = Inr (Ready c X) \<longrightarrow> name c = ''Unknown'')
       \<and> (\<forall>n r p i db'. predict b m form db = (Inr (ResultPage n r p i), db') \<longrightarrow>
             n = ''Unknown'' \<and> (\<exists>row. db' = db @ [row] \<and> fst row = ''Unknown''))"
proof -
  have eq: "normalize_form b (form(''name'' \<mapsto> ''Unknown'')) = normalize_form b form"
    by (simp add: normalize_form_def read_form_name_absent [where form = form, OF assms])
  have 1: "predict b m form db = predict b m (form(''name'' \<mapsto> ''Unknown'')) db"
    by (simp add: predict_def eq)
  have 2: "''name'' \<notin> set ms" if "normalize_form b form = Inr (Missing ms)" for ms
  proof -
    obtain f where f: "read_form b form = Inr f"
      by (simp add: read_form_total)
    have "ms = missing f"
      using that f by (auto simp: normalize_form_def split: if_splits sum.splits simp: and_then_def)
    then show ?thesis
      by (simp add: missing_read_form [OF f] required_names_def)
  qed
  have 3: "name c = ''Unknown''" if "normalize_form b form = Inr (Ready c X)" for c X
    using normalize_form_Ready_D [OF that] assms by (metis option.simps(4))
  have 4: "n = ''Unknown'' \<and> (\<exists>row. db' = db @ [row] \<and> fst row = ''Unknown'')"
    if "predict b m form db = (Inr (ResultPage n r p i), db')" for n r p i db'
  proof (cases b form rule: normalize_form_cases)
    case (Missing ms)
    then show ?thesis using that predict_Missing [OF Missing(2), of m db] by simp
  next
    case (Ready c X)
    show ?thesis
    proof (cases "score m X")
      case (Inl e)
      then show ?thesis using that predict_Ready(2) [OF Ready Inl, of db] by simp
    next
      case (Inr v)
      obtain q y where v: "v = (q, y)" by (cases v)
      show ?thesis
        using that predict_Ready(1) [OF Ready Inr [unfolded v], of db] 3 [OF Ready]
        by (auto simp: patient_row_def)
    qed
  qed
  show ?thesis
    using 1 2 3 4 by blast
qed

theorem absent_name_becomes_Unknown_witness:
  "form_extreme ''name'' = None
   \<and> predict python (fixed_model (3 / 4) 1) form_extreme [] =
       (Inr (ResultPage ''Unknown'' ''Diabetes Risk'' (Finite (3 / 4)) (inputs_of clamped_extreme)),
        [patient_row clamped_extreme (Finite (3 / 4)) ''Diabetes Risk''])
   \<and> name clamped_extreme = ''Unknown''
   \<and> fst (patient_row clamped_extreme (Finite (3 / 4)) ''Diabetes Risk'') = ''Unknown''"
proof -
  have a: "form_extreme ''name'' = None"
    by (simp add: form_extreme_def)
  have s: "score (fixed_model (3 / 4) 1) features_extreme = Inr (Finite (3 / 4), 1)"
    by (simp add: score_def fixed_model_def features_extreme_def getindex_def)
  have r: "py_round python (Finite (3 / 4)) 4 = Finite (3 / 4)"
    by (simp add: python_def round_decimal_def round_half_even_def)
  have p: "predict python (fixed_model (3 / 4) 1) form_extreme [] =
       (Inr (ResultPage ''Unknown'' ''Diabetes Risk'' (Finite (3 / 4)) (inputs_of clamped_extreme)),
        [patient_row clamped_extreme (Finite (3 / 4)) ''Diabetes Risk''])"
    using predict_Ready(1) [OF normalize_extreme s, of "[]"]
    by (simp add: r result_of_def) (simp add: clamped_extreme_def)
  have n: "name clamped_extreme = ''Unknown''"
    using absent_name_becomes_Unknown [where form = form_extreme and b = python
          and m = "fixed_model (3 / 4) 1" and db = "[]", OF a]
      normalize_extreme by blast
  show ?thesis
    using a p n by (simp add: patient_row_def)
qed

end
